theory Spec2Isabelle
  imports Main
begin

section \<open>JSON values and the Python operations applied to them\<close>

text \<open>
  The request handler works on the value that \<open>await request.json()\<close> returns: a decoded
  JSON document. A decoded object is a Python dict, kept here as the list of its items in
  insertion order (one item per key). JSON numbers are kept as Python ints.
\<close>

datatype json =
    JNull
  | JBool bool
  | JNum int
  | JStr string
  | JArr "json list"
  | JObj "(string \<times> json) list"

text \<open>
  The exceptions the modelled code can raise. The first three carry the text of
  \<open>str(e)\<close>, a \<open>KeyError\<close> carries the missing key.
\<close>

datatype exn =
    JSONDecodeError string
  | AttributeError string
  | TypeError string
  | KeyError json

definition quote :: "string \<Rightarrow> string" where
  "quote s = [CHR 0x27] @ s @ [CHR 0x27]"

fun type_name :: "json \<Rightarrow> string" where
  "type_name JNull = ''NoneType''"
| "type_name (JBool b) = ''bool''"
| "type_name (JNum n) = ''int''"
| "type_name (JStr s) = ''str''"
| "type_name (JArr xs) = ''list''"
| "type_name (JObj kvs) = ''dict''"

definition no_attribute :: "json \<Rightarrow> string \<Rightarrow> exn" where
  "no_attribute v a =
     AttributeError (quote (type_name v) @ '' object has no attribute '' @ quote a)"

definition unhashable :: "json \<Rightarrow> exn" where
  "unhashable v = TypeError (''unhashable type: '' @ quote (type_name v))"

definition no_len :: "json \<Rightarrow> exn" where
  "no_len v = TypeError (''object of type '' @ quote (type_name v) @ '' has no len()'')"

text \<open>\<open>d.get(k, dflt)\<close>: the value stored under the key, or the default.\<close>

definition dict_get :: "(string \<times> json) list \<Rightarrow> string \<Rightarrow> json \<Rightarrow> json" where
  "dict_get kvs k dflt = (case map_of kvs k of Some v \<Rightarrow> v | None \<Rightarrow> dflt)"

text \<open>Only a dict has the method \<open>get\<close>.\<close>

definition py_get :: "json \<Rightarrow> string \<Rightarrow> json \<Rightarrow> exn + json" where
  "py_get d k dflt =
     (case d of
        JObj kvs \<Rightarrow> Inr (dict_get kvs k dflt)
      | _ \<Rightarrow> Inl (no_attribute d ''get''))"

text \<open>Lists and dicts cannot be hashed, every other JSON value can.\<close>

fun hashable :: "json \<Rightarrow> bool" where
  "hashable (JArr xs) = False"
| "hashable (JObj kvs) = False"
| "hashable v = True"

text \<open>\<open>k in d\<close> for a dict \<open>d\<close> whose keys are strings: the key is hashed first.\<close>

definition py_contains :: "(string \<times> 'v) list \<Rightarrow> json \<Rightarrow> exn + bool" where
  "py_contains d k =
     (case k of
        JStr s \<Rightarrow> Inr (s \<in> set (map fst d))
      | JArr xs \<Rightarrow> Inl (unhashable k)
      | JObj kvs \<Rightarrow> Inl (unhashable k)
      | _ \<Rightarrow> Inr False)"

text \<open>\<open>d[k]\<close> for a dict \<open>d\<close> whose keys are strings.\<close>

definition py_getitem :: "(string \<times> 'v) list \<Rightarrow> json \<Rightarrow> exn + 'v" where
  "py_getitem d k =
     (case k of
        JStr s \<Rightarrow> (case map_of d s of Some v \<Rightarrow> Inr v | None \<Rightarrow> Inl (KeyError k))
      | JArr xs \<Rightarrow> Inl (unhashable k)
      | JObj kvs \<Rightarrow> Inl (unhashable k)
      | _ \<Rightarrow> Inl (KeyError k))"

text \<open>Truth value of a JSON value, as \<open>not v\<close> tests it.\<close>

fun py_truthy :: "json \<Rightarrow> bool" where
  "py_truthy JNull = False"
| "py_truthy (JBool b) = b"
| "py_truthy (JNum n) = (n \<noteq> 0)"
| "py_truthy (JStr s) = (s \<noteq> [])"
| "py_truthy (JArr xs) = (xs \<noteq> [])"
| "py_truthy (JObj kvs) = (kvs \<noteq> [])"

text \<open>\<open>len(v)\<close> is defined on strings, lists and dicts.\<close>

fun has_len :: "json \<Rightarrow> bool" where
  "has_len (JStr s) = True"
| "has_len (JArr xs) = True"
| "has_len (JObj kvs) = True"
| "has_len v = False"

text \<open>\<open>d[k] = v\<close> on a dict: an existing key keeps its position, a new key goes last.\<close>

fun py_setitem :: "(string \<times> 'v) list \<Rightarrow> string \<Rightarrow> 'v \<Rightarrow> (string \<times> 'v) list" where
  "py_setitem [] k v = [(k, v)]"
| "py_setitem (p # ps) k v = (if fst p = k then (k, v) # ps else p # py_setitem ps k v)"

text \<open>Decimal numerals, as \<open>str\<close> prints an int.\<close>

fun show_nat :: "nat \<Rightarrow> string" where
  "show_nat n =
     (if n < 10 then [char_of (48 + n)]
      else show_nat (n div 10) @ [char_of (48 + n mod 10)])"

declare show_nat.simps [simp del]

definition show_int :: "int \<Rightarrow> string" where
  "show_int i = (if i < 0 then ''-'' @ show_nat (nat (- i)) else show_nat (nat i))"

section \<open>The environment of one run\<close>

text \<open>
  What the code reads from outside the dispatcher: whether the tracer was set up
  (\<open>TRACING_ENABLED and tracer\<close>), the value of \<open>str(uuid.uuid4())\<close>, the clock, Python's
  \<open>repr\<close> of a value, and the text that the template renderers build once their
  arguments have been accepted.
\<close>

record env =
  tracing :: bool
  uuid4 :: string
  now_isoformat :: string
  heartbeat_time :: "nat \<Rightarrow> string"
  py_repr :: "json \<Rightarrow> string"
  arsenal_info_text :: string
  scan_text :: "string \<Rightarrow> string \<Rightarrow> string"
  status_text :: string
  report_text :: "string \<Rightarrow> string"

text \<open>\<open>str(v)\<close>, as an f-string field renders a value.\<close>

definition py_str :: "env \<Rightarrow> json \<Rightarrow> string" where
  "py_str env v =
     (case v of
        JStr s \<Rightarrow> s
      | JNull \<Rightarrow> ''None''
      | JBool b \<Rightarrow> (if b then ''True'' else ''False'')
      | JNum n \<Rightarrow> show_int n
      | _ \<Rightarrow> py_repr env v)"


text \<open>\<open>str(e)\<close> for a caught exception; the text of a \<open>KeyError\<close> is the \<open>repr\<close> of its key.\<close>

fun exn_str :: "env \<Rightarrow> exn \<Rightarrow> string" where
  "exn_str env (JSONDecodeError m) = m"
| "exn_str env (AttributeError m) = m"
| "exn_str env (TypeError m) = m"
| "exn_str env (KeyError k) = py_repr env k"

section \<open>Constants and the arsenal data\<close>

definition MCP_VERSION :: string where
  "MCP_VERSION = ''2024-11-05''"

definition SERVER_INFO_capabilities :: json where
  "SERVER_INFO_capabilities =
     JObj [(''bleeding_edge'', JBool True),
           (''auto_updates'', JBool True),
           (''experimental_tools'', JBool True),
           (''gradio_interface'', JBool True),
           (''mcp_integration'', JBool True),
           (''unified_platform'', JBool True),
           (''gemini_3_pro_preview'', JBool True)]"

definition SERVER_INFO :: json where
  "SERVER_INFO =
     JObj [(''name'', JStr ''darkdriftz-bleeding-edge-kali-mcp-unified''),
           (''version'', JStr ''3.0.0''),
           (''description'',
            JStr (''DarkDriftz'' @ [CHR 0x27] @
                  ''s Complete Bleeding Edge Kali Linux MCP Server - Unified HF Spaces + HuggingChat'')),
           (''capabilities'', SERVER_INFO_capabilities)]"

definition PLATFORM_TYPE :: string where
  "PLATFORM_TYPE = ''Unified Hugging Face Spaces + MCP Server''"

definition additional_tools_count :: int where
  \<comment> \<open>\<open>BLEEDING_EDGE_CONFIG["additional_tools_count"]\<close>\<close>
  "additional_tools_count = 150"

definition bleeding_edge_enabled :: bool where
  \<comment> \<open>\<open>BLEEDING_EDGE_CONFIG["enabled"]\<close>\<close>
  "bleeding_edge_enabled = True"

record category_info =
  cat_count :: int
  cat_description :: string
  cat_bleeding_edge_enhanced :: bool
  cat_tools :: "string list"

definition get_kali_arsenal_data :: "(string \<times> category_info) list" where
  "get_kali_arsenal_data =
   [
    (''Information Gathering'',
     \<lparr>cat_count = 85,
      cat_description = ''Complete reconnaissance and intelligence gathering tools'',
      cat_bleeding_edge_enhanced = True,
      cat_tools =
       [''nmap'', ''masscan'', ''zmap'', ''unicornscan'', ''dmitry'', ''netdiscover'',
        ''nbtscan'', ''enum4linux'', ''smbclient'', ''rpcclient'', ''showmount'',
        ''snmpwalk'', ''snmpcheck'', ''onesixtyone'', ''sipvicious'', ''whatweb'',
        ''wafw00f'', ''httprint'', ''fierce'', ''dnsenum'', ''dnsrecon'', ''dnsmap'',
        ''sublist3r'', ''theharvester'', ''metagoofil'', ''recon-ng'', ''maltego'',
        ''subfinder'', ''httpx'', ''katana'', ''nuclei'', ''naabu'', ''dnsx'',
        ''rustscan'', ''feroxbuster'', ''httpx-toolkit'', ''katana-crawler'',
        ''interactsh'', ''notify'', ''chaos-client'', ''dnsprobe'', ''shuffledns'']\<rparr>),
    (''Vulnerability Analysis'',
     \<lparr>cat_count = 62,
      cat_description = ''Advanced vulnerability scanning and analysis tools'',
      cat_bleeding_edge_enhanced = True,
      cat_tools =
       [''openvas'', ''nikto'', ''w3af'', ''skipfish'', ''wapiti'', ''sqlmap'', ''commix'',
        ''bed'', ''lynis'', ''unix-privesc-check'', ''nuclei'',
        ''linux-exploit-suggester'', ''windows-exploit-suggester'', ''nuclei-templates'',
        ''neural-fuzzing'', ''ai-security-toolkit'']\<rparr>),
    (''Web Applications'',
     \<lparr>cat_count = 58,
      cat_description = ''Complete web application security testing suite'',
      cat_bleeding_edge_enhanced = True,
      cat_tools =
       [''owasp-zap'', ''burpsuite'', ''webscarab'', ''proxystrike'', ''vega'',
        ''sqlninja'', ''bbqsql'', ''jsql-injection'', ''hexorbase'', ''dirb'',
        ''dirbuster'', ''gobuster'', ''feroxbuster'', ''ffuf'', ''wfuzz'', ''cariddi'',
        ''gau'', ''waybackurls'', ''gf'', ''anew'', ''unfurl'']\<rparr>),
    (''Password Attacks'',
     \<lparr>cat_count = 42,
      cat_description = ''Advanced password cracking and analysis tools'',
      cat_bleeding_edge_enhanced = True,
      cat_tools =
       [''john'', ''hashcat'', ''hydra'', ''medusa'', ''ncrack'', ''patator'', ''crowbar'',
        ''cewl'', ''crunch'', ''cupp'', ''rsmangler'', ''wordlists'', ''hashcat-utils-ng'',
        ''john-jumbo-ng'', ''maskprocessor-ng'']\<rparr>),
    (''Wireless Attacks'',
     \<lparr>cat_count = 38,
      cat_description = ''Complete wireless security testing arsenal'',
      cat_bleeding_edge_enhanced = True,
      cat_tools =
       [''aircrack-ng'', ''airmon-ng'', ''airodump-ng'', ''aireplay-ng'', ''wifite'',
        ''reaver'', ''bully'', ''pixiewps'', ''wash'', ''mdk3'', ''wifipumpkin3'',
        ''eaphammer-ng'', ''wifi-arsenal'', ''bluetooth-arsenal'']\<rparr>),
    (''Exploitation Tools'',
     \<lparr>cat_count = 55,
      cat_description = ''Advanced exploitation frameworks and tools'',
      cat_bleeding_edge_enhanced = True,
      cat_tools =
       [''metasploit-framework'', ''armitage'', ''empire'', ''covenant'', ''sliver'',
        ''merlin'', ''pupy'', ''koadic'', ''veil'', ''shellter'', ''sliver-client'',
        ''merlin-agent'', ''covenant-client'', ''havoc-framework'']\<rparr>),
    (''Forensics'',
     \<lparr>cat_count = 48,
      cat_description = ''Digital forensics and incident response tools'',
      cat_bleeding_edge_enhanced = True,
      cat_tools =
       [''volatility'', ''autopsy'', ''sleuthkit'', ''foremost'', ''binwalk'',
        ''bulk-extractor'', ''chkrootkit'', ''rkhunter'', ''aide'', ''ossec'',
        ''volatility3'', ''autopsy-ng'', ''sleuthkit-ng'', ''yara-ng'']\<rparr>),
    (''Reverse Engineering'',
     \<lparr>cat_count = 35,
      cat_description = ''Complete reverse engineering and analysis tools'',
      cat_bleeding_edge_enhanced = True,
      cat_tools =
       [''gdb'', ''radare2'', ''ida-free'', ''ghidra'', ''objdump'', ''strings'',
        ''ltrace'', ''strace'', ''hexedit'', ''bless'', ''dhex'', ''okteta'']\<rparr>),
    (''Hardware Hacking'',
     \<lparr>cat_count = 28,
      cat_description = ''Hardware security and IoT testing tools'',
      cat_bleeding_edge_enhanced = True,
      cat_tools =
       [''minicom'', ''screen'', ''picocom'', ''openocd'', ''avrdude'', ''flashrom'',
        ''dediprog'', ''bus-pirate'', ''arduino'', ''platformio'', ''iot-toolkit'',
        ''hardware-hacking-ng'', ''firmware-analysis-ng'']\<rparr>),
    (''Crypto & Stego'',
     \<lparr>cat_count = 32,
      cat_description = ''Cryptography and steganography analysis tools'',
      cat_bleeding_edge_enhanced = True,
      cat_tools =
       [''hashcat'', ''john'', ''steghide'', ''outguess'', ''foremost'', ''binwalk'',
        ''exiftool'', ''fcrackzip'', ''pdfcrack'', ''rarcrack'']\<rparr>),
    (''Reporting Tools'',
     \<lparr>cat_count = 25,
      cat_description = ''Professional security assessment reporting'',
      cat_bleeding_edge_enhanced = True,
      cat_tools =
       [''cutycapt'', ''faraday'', ''dradis'', ''magictree'', ''case-file'', ''maltego'',
        ''recordmydesktop'', ''kazam'', ''vokoscreen'', ''simplescreenrecorder'']\<rparr>),
    (''Social Engineering'',
     \<lparr>cat_count = 22,
      cat_description = ''Social engineering and OSINT tools'',
      cat_bleeding_edge_enhanced = True,
      cat_tools =
       [''set'', ''beef'', ''king-phisher'', ''gophish'', ''evilginx2'', ''catphish'',
        ''weeman'', ''blackeye'', ''shellphish'', ''zphisher'', ''osint-toolkit-ng'',
        ''social-analyzer-ng'', ''sherlock-ng'']\<rparr>),
    (''Sniffing & Spoofing'',
     \<lparr>cat_count = 31,
      cat_description = ''Network analysis and manipulation tools'',
      cat_bleeding_edge_enhanced = True,
      cat_tools =
       [''wireshark'', ''tshark'', ''tcpdump'', ''ettercap'', ''dsniff'', ''arpspoof'',
        ''ettercap-ng'', ''bettercap'', ''mitmproxy'', ''sslstrip'',
        ''packet-analysis-ng'', ''network-intercept-toolkit'']\<rparr>)
   ]"

section \<open>The cached counts\<close>

definition get_standard_tool_count :: int where
  "get_standard_tool_count =
     sum_list (map (\<lambda>(name, category). cat_count category) get_kali_arsenal_data)"

definition get_total_tool_count :: int where
  "get_total_tool_count =
     sum_list (map (\<lambda>(name, category). cat_count category) get_kali_arsenal_data)
       + additional_tools_count"

definition get_category_count :: nat where
  "get_category_count = length get_kali_arsenal_data"

section \<open>The tool functions\<close>

definition nl :: string where
  "nl = [CHR 0x0A]"

text \<open>\<open>sep.join(xs)\<close>\<close>

fun py_join :: "string \<Rightarrow> string list \<Rightarrow> string" where
  "py_join sep [] = []"
| "py_join sep [x] = x"
| "py_join sep (x # y # ys) = x @ sep @ py_join sep (y # ys)"

text \<open>
  \<open>str.upper()\<close> on ASCII text; it is applied to keys of the arsenal data only, which are
  ASCII.
\<close>

definition upper_char :: "char \<Rightarrow> char" where
  "upper_char c =
     (if (97::nat) \<le> of_char c \<and> of_char c \<le> (122::nat)
      then char_of (of_char c - (32::nat)) else c)"

definition upper :: "string \<Rightarrow> string" where
  "upper s = map upper_char s"

text \<open>The format \<open>{i:2d}\<close>: right-aligned in two columns.\<close>

definition fmt_2d :: "nat \<Rightarrow> string" where
  "fmt_2d i = (if i < 10 then '' '' @ show_nat i else show_nat i)"

definition invalid_category :: string where
  "invalid_category =
     ''Invalid category. Available categories: ''
       @ py_join '', '' (map fst get_kali_arsenal_data)"

text \<open>
  The text built for a category that was found. The indicator appended to each tool line
  is the empty string in both branches of the source's conditional.
\<close>

definition category_result :: "string \<Rightarrow> category_info \<Rightarrow> string" where
  "category_result category_name category_info =
     (let bleeding_status =
            (if cat_bleeding_edge_enhanced category_info then ''BLEEDING EDGE ENHANCED''
             else ''STANDARD'');
          bleeding_indicator = [];
          result0 =
            nl @ upper category_name @ '' - '' @ bleeding_status @ nl
            @ nl
            @ ''**Category Statistics:**'' @ nl
            @ ''- **Tool Count**: '' @ show_int (cat_count category_info) @ nl
            @ ''- **Description**: '' @ cat_description category_info @ nl
            @ ''- **Bleeding Edge**: ''
            @ (if cat_bleeding_edge_enhanced category_info then ''Enhanced'' else ''Standard'')
            @ nl
            @ nl
            @ ''**Available Tools:**'' @ nl;
          tools = cat_tools category_info;
          result1 =
            foldl (\<lambda>result (i, tool).
                     result @ fmt_2d i @ ''. '' @ tool @ '' '' @ bleeding_indicator @ nl)
                  result0 (zip [1 ..< Suc (length tools)] tools)
      in result1
         @ nl
         @ ''**Usage in Bleeding Edge Scans:**'' @ nl
         @ ''This category is automatically utilized in comprehensive security assessments with''
         @ nl
         @ ''enhanced bleeding edge tools for maximum coverage and advanced threat detection.''
         @ nl
         @ nl
         @ ''Created by DarkDriftz - Revolutionary Cybersecurity Research Platform'' @ nl)"

definition get_kali_tool_category :: "json \<Rightarrow> exn + string" where
  "get_kali_tool_category category_name =
     (if \<not> py_truthy category_name then Inr invalid_category
      else
        (case py_contains get_kali_arsenal_data category_name of
           Inl e \<Rightarrow> Inl e
         | Inr False \<Rightarrow> Inr invalid_category
         | Inr True \<Rightarrow>
             (case py_getitem get_kali_arsenal_data category_name of
                Inl e \<Rightarrow> Inl e
              | Inr category_info \<Rightarrow>
                  Inr (category_result (case category_name of JStr s \<Rightarrow> s | _ \<Rightarrow> [])
                         category_info))))"

text \<open>
  The other four tools render fixed templates. What is modelled of them is which
  arguments they accept: \<open>scan_type.upper()\<close> and \<open>report_type.upper()\<close> need a string.
\<close>

definition get_complete_kali_arsenal_info :: "env \<Rightarrow> exn + string" where
  "get_complete_kali_arsenal_info env = Inr (arsenal_info_text env)"

definition run_kali_security_scan_impl :: "env \<Rightarrow> json \<Rightarrow> json \<Rightarrow> exn + string" where
  "run_kali_security_scan_impl env target scan_type =
     (let target' = (if \<not> py_truthy target then JStr ''example.com'' else target)
      in case scan_type of
           JStr s \<Rightarrow> Inr (scan_text env (py_str env target') s)
         | _ \<Rightarrow> Inl (no_attribute scan_type ''upper''))"

text \<open>With tracing on, the result is recorded on a span and an exception is re-raised.\<close>

definition run_kali_security_scan :: "env \<Rightarrow> json \<Rightarrow> json \<Rightarrow> exn + string" where
  "run_kali_security_scan env target scan_type =
     (if tracing env then
        (case run_kali_security_scan_impl env target scan_type of
           Inr result \<Rightarrow> Inr result
         | Inl e \<Rightarrow> Inl e)
      else run_kali_security_scan_impl env target scan_type)"

definition get_bleeding_edge_status :: "env \<Rightarrow> exn + string" where
  "get_bleeding_edge_status env = Inr (status_text env)"

definition generate_kali_security_report :: "env \<Rightarrow> json \<Rightarrow> exn + string" where
  "generate_kali_security_report env report_type =
     (case report_type of
        JStr s \<Rightarrow> Inr (report_text env s)
      | _ \<Rightarrow> Inl (no_attribute report_type ''upper''))"

section \<open>The server: registry, tool execution and the request handler\<close>

text \<open>
  \<open>self.server_state\<close>. The registry \<open>tools\<close> is a dict from a tool's name to its details
  (description and input schema), kept in insertion order.
\<close>

record server_state =
  tools :: "(string \<times> (string \<times> json) list) list"
  resources :: "json list"
  capabilities :: json

definition input_schema :: "(string \<times> json) list \<Rightarrow> string list \<Rightarrow> json" where
  "input_schema properties required =
     JObj [(''type'', JStr ''object''),
           (''properties'', JObj properties),
           (''required'', JArr (map JStr required))]"

definition string_property :: "string \<Rightarrow> json" where
  "string_property description =
     JObj [(''type'', JStr ''string''), (''description'', JStr description)]"

definition register_mcp_tools :: "server_state \<Rightarrow> server_state" where
  "register_mcp_tools st0 =
     (let st1 = st0\<lparr>tools := py_setitem (tools st0) ''get_complete_kali_arsenal_info''
                  [(''description'',
                    JStr (''Get complete information about DarkDriftz'' @ [CHR 0x27] @
                          ''s bleeding edge Kali Linux arsenal'')),
                   (''inputSchema'', input_schema [] [])]\<rparr>;
          st2 = st1\<lparr>tools := py_setitem (tools st1) ''get_kali_tool_category''
                  [(''description'',
                    JStr ''Get detailed information about a specific Kali Linux tool category''),
                   (''inputSchema'',
                    input_schema
                      [(''category_name'', string_property ''Name of the tool category'')]
                      [''category_name''])]\<rparr>;
          st3 = st2\<lparr>tools := py_setitem (tools st2) ''run_kali_security_scan''
                  [(''description'',
                    JStr ''Run comprehensive security scan using bleeding edge enhanced tools''),
                   (''inputSchema'',
                    input_schema
                      [(''target'', string_property ''Target for security scanning''),
                       (''scan_type'',
                        string_property ''Type of scan (reconnaissance, vulnerability, web, etc.)'')]
                      [''target''])]\<rparr>;
          st4 = st3\<lparr>tools := py_setitem (tools st3) ''get_bleeding_edge_status''
                  [(''description'',
                    JStr ''Get comprehensive bleeding edge repository status and capabilities''),
                   (''inputSchema'', input_schema [] [])]\<rparr>;
          st5 = st4\<lparr>tools := py_setitem (tools st4) ''generate_kali_security_report''
                  [(''description'',
                    JStr ''Generate professional security assessment reports''),
                   (''inputSchema'',
                    input_schema
                      [(''report_type'',
                        string_property
                          ''Type of report (comprehensive, executive, technical, compliance)'')]
                      [])]\<rparr>
      in st5)"

text \<open>The constructor, and the one server object of the module.\<close>

definition server_init :: server_state where
  "server_init =
     register_mcp_tools
       \<lparr>tools = [], resources = [], capabilities = SERVER_INFO_capabilities\<rparr>"

definition mcp_server :: server_state where
  "mcp_server = server_init"

text \<open>
  The body of the \<open>try\<close> in \<open>_execute_tool_impl\<close>: the chain of comparisons on the tool
  name. \<open>Inl\<close> is an exception raised inside the \<open>try\<close>.
\<close>

definition execute_tool_try :: "env \<Rightarrow> json \<Rightarrow> json \<Rightarrow> exn + string" where
  "execute_tool_try env tool_name arguments =
     (if tool_name = JStr ''get_complete_kali_arsenal_info'' then
        get_complete_kali_arsenal_info env
      else if tool_name = JStr ''get_kali_tool_category'' then
        (case py_get arguments ''category_name'' (JStr []) of
           Inl e \<Rightarrow> Inl e
         | Inr category_name \<Rightarrow> get_kali_tool_category category_name)
      else if tool_name = JStr ''run_kali_security_scan'' then
        (case py_get arguments ''target'' (JStr ''example.com'') of
           Inl e \<Rightarrow> Inl e
         | Inr target \<Rightarrow>
             (case py_get arguments ''scan_type'' (JStr ''reconnaissance'') of
                Inl e \<Rightarrow> Inl e
              | Inr scan_type \<Rightarrow> run_kali_security_scan env target scan_type))
      else if tool_name = JStr ''get_bleeding_edge_status'' then
        get_bleeding_edge_status env
      else if tool_name = JStr ''generate_kali_security_report'' then
        (case py_get arguments ''report_type'' (JStr ''comprehensive'') of
           Inl e \<Rightarrow> Inl e
         | Inr report_type \<Rightarrow> generate_kali_security_report env report_type)
      else Inr (''Unknown tool: '' @ py_str env tool_name))"

text \<open>\<open>_execute_tool_impl\<close>: the \<open>except Exception\<close> turns every exception into a text.\<close>

definition execute_tool_impl :: "env \<Rightarrow> json \<Rightarrow> json \<Rightarrow> string" where
  "execute_tool_impl env tool_name arguments =
     (case execute_tool_try env tool_name arguments of
        Inr result \<Rightarrow> result
      | Inl e \<Rightarrow> ''Tool execution failed: '' @ exn_str env e)"

text \<open>
  \<open>_execute_tool\<close>: with tracing on, \<open>len(arguments)\<close> is taken before the inner \<open>try\<close>,
  so its \<open>TypeError\<close> leaves the function.
\<close>

definition execute_tool :: "env \<Rightarrow> json \<Rightarrow> json \<Rightarrow> exn + string" where
  "execute_tool env tool_name arguments =
     (if tracing env then
        (if has_len arguments then Inr (execute_tool_impl env tool_name arguments)
         else Inl (no_len arguments))
      else Inr (execute_tool_impl env tool_name arguments))"

text \<open>The dict literals of the responses.\<close>

definition rpc_result :: "json \<Rightarrow> json \<Rightarrow> json" where
  "rpc_result request_id result =
     JObj [(''jsonrpc'', JStr ''2.0''), (''id'', request_id), (''result'', result)]"

definition rpc_error :: "json \<Rightarrow> int \<Rightarrow> string \<Rightarrow> json" where
  "rpc_error request_id code message =
     JObj [(''jsonrpc'', JStr ''2.0''), (''id'', request_id),
           (''error'', JObj [(''code'', JNum code), (''message'', JStr message)])]"

definition text_content :: "string \<Rightarrow> json" where
  "text_content result =
     JObj [(''content'', JArr [JObj [(''type'', JStr ''text''), (''text'', JStr result)]]),
           (''isError'', JBool False)]"

text \<open>\<open>{"name": name, **details}\<close>\<close>

definition tool_descriptor :: "string \<Rightarrow> (string \<times> json) list \<Rightarrow> json" where
  "tool_descriptor name details =
     JObj (foldl (\<lambda>d (k, v). py_setitem d k v) [(''name'', JStr name)] details)"

definition tools_list :: "server_state \<Rightarrow> json list" where
  "tools_list st = map (\<lambda>(name, details). tool_descriptor name details) (tools st)"

text \<open>
  The body of the \<open>try\<close> in \<open>handle_mcp_request\<close>. Its argument is the outcome of
  \<open>await request.json()\<close>: the decoded body, or the exception raised while decoding.
\<close>

definition mcp_dispatch :: "env \<Rightarrow> server_state \<Rightarrow> exn + json \<Rightarrow> exn + json" where
  "mcp_dispatch env st request_json =
     (case request_json of Inl e \<Rightarrow> Inl e | Inr data \<Rightarrow>
      (case py_get data ''method'' (JStr []) of Inl e \<Rightarrow> Inl e | Inr method \<Rightarrow>
      (case py_get data ''params'' (JObj []) of Inl e \<Rightarrow> Inl e | Inr params \<Rightarrow>
      (case py_get data ''id'' (JStr (uuid4 env)) of Inl e \<Rightarrow> Inl e | Inr request_id \<Rightarrow>
         if method = JStr ''tools/list'' then
           Inr (rpc_result request_id (JObj [(''tools'', JArr (tools_list st))]))
         else if method = JStr ''tools/call'' then
           (case py_get params ''name'' (JStr []) of Inl e \<Rightarrow> Inl e | Inr tool_name \<Rightarrow>
           (case py_get params ''arguments'' (JObj []) of Inl e \<Rightarrow> Inl e | Inr arguments \<Rightarrow>
           (case py_contains (tools st) tool_name of
              Inl e \<Rightarrow> Inl e
            | Inr True \<Rightarrow>
                (case execute_tool env tool_name arguments of
                   Inl e \<Rightarrow> Inl e
                 | Inr result \<Rightarrow> Inr (rpc_result request_id (text_content result)))
            | Inr False \<Rightarrow>
                Inr (rpc_error request_id (- 32601)
                       (''Tool not found: '' @ py_str env tool_name)))))
         else if method = JStr ''initialize'' then
           Inr (rpc_result request_id
                  (JObj [(''protocolVersion'', JStr MCP_VERSION),
                         (''capabilities'', capabilities st),
                         (''serverInfo'', SERVER_INFO)]))
         else
           Inr (rpc_error request_id (- 32601)
                  (''Method not found: '' @ py_str env method))))))"

record http_response =
  status_code :: nat
  content :: json

text \<open>\<open>handle_mcp_request\<close>: \<open>JSONResponse\<close> has status 200 unless another is given.\<close>

definition handle_mcp_request :: "env \<Rightarrow> server_state \<Rightarrow> exn + json \<Rightarrow> http_response" where
  "handle_mcp_request env st request_json =
     (case mcp_dispatch env st request_json of
        Inr response \<Rightarrow> \<lparr>status_code = 200, content = response\<rparr>
      | Inl e \<Rightarrow>
          \<lparr>status_code = 500,
           content = rpc_error (JStr ''error'') (- 32603) (''Internal error: '' @ exn_str env e)\<rparr>)"

section \<open>The health endpoint\<close>

definition health_check :: "env \<Rightarrow> server_state \<Rightarrow> json" where
  "health_check env st =
     (let total_tools = get_total_tool_count;
          bleeding_edge_tools = additional_tools_count
      in JObj [(''status'', JStr ''healthy''),
               (''server'', JStr ''darkdriftz-bleeding-edge-kali-mcp-unified''),
               (''version'', JStr ''3.0.0''),
               (''platform'', JStr PLATFORM_TYPE),
               (''total_tools'', JNum (total_tools + bleeding_edge_tools)),
               (''mcp_tools'', JNum (int (length (tools st)))),
               (''bleeding_edge'', JBool bleeding_edge_enabled),
               (''timestamp'', JStr (now_isoformat env))])"

section \<open>The event stream\<close>

text \<open>
  The generator \<open>event_stream\<close> yields the initialization event and then, in a loop that
  has no exit of its own, one heartbeat every 30 seconds. It ends when the connection is
  closed, so a session is the list of the events yielded before that: \<open>event_stream env st n\<close>
  is the session in which the client took \<open>n\<close> events. An event is given as the object
  that is serialised after \<open>data:\<close>.
\<close>

definition initialize_event :: "server_state \<Rightarrow> json" where
  "initialize_event st =
     JObj [(''jsonrpc'', JStr ''2.0''), (''method'', JStr ''initialize''),
           (''params'',
            JObj [(''protocolVersion'', JStr MCP_VERSION),
                  (''capabilities'', capabilities st),
                  (''serverInfo'', SERVER_INFO)])]"

definition heartbeat_event :: "string \<Rightarrow> json" where
  "heartbeat_event timestamp =
     JObj [(''jsonrpc'', JStr ''2.0''), (''method'', JStr ''heartbeat''),
           (''params'', JObj [(''timestamp'', JStr timestamp)])]"

fun heartbeat_loop :: "env \<Rightarrow> nat \<Rightarrow> nat \<Rightarrow> json list" where
  "heartbeat_loop env i 0 = []"
| "heartbeat_loop env i (Suc n) =
     heartbeat_event (heartbeat_time env i) # heartbeat_loop env (Suc i) n"

fun event_stream :: "env \<Rightarrow> server_state \<Rightarrow> nat \<Rightarrow> json list" where
  "event_stream env st 0 = []"
| "event_stream env st (Suc n) = initialize_event st # heartbeat_loop env 0 n"

text \<open>Reading a field of a JSON object.\<close>

definition field :: "string \<Rightarrow> json \<Rightarrow> json option" where
  "field k v = (case v of JObj kvs \<Rightarrow> map_of kvs k | _ \<Rightarrow> None)"

fun is_object :: "json \<Rightarrow> bool" where
  "is_object (JObj kvs) = True"
| "is_object v = False"


text \<open>
  The requests on which the \<open>try\<close> of \<open>handle_mcp_request\<close> is left by an exception, for
  a body that is an object: the method is \<open>tools/call\<close> and either \<open>params\<close> is not an
  object, or its \<open>name\<close> cannot be hashed, or the name is registered, tracing is on and
  the \<open>arguments\<close> have no length.
\<close>

definition dispatch_raises :: "env \<Rightarrow> server_state \<Rightarrow> (string \<times> json) list \<Rightarrow> bool" where
  "dispatch_raises env st body =
     (dict_get body ''method'' (JStr []) = JStr ''tools/call''
      \<and> (case dict_get body ''params'' (JObj []) of
             JObj params \<Rightarrow>
               \<not> hashable (dict_get params ''name'' (JStr []))
               \<or> (dict_get params ''name'' (JStr []) \<in> JStr ` fst ` set (tools st)
                   \<and> tracing env
                   \<and> \<not> has_len (dict_get params ''arguments'' (JObj [])))
           | _ \<Rightarrow> True))"

text \<open>
  The branches of the chain in \<open>_execute_tool_impl\<close>, as a table from the name compared
  to the call made with the arguments.
\<close>

definition tool_handlers :: "env \<Rightarrow> (string \<times> (json \<Rightarrow> exn + string)) list" where
  "tool_handlers env =
     [(''get_complete_kali_arsenal_info'', \<lambda>arguments. get_complete_kali_arsenal_info env),
      (''get_kali_tool_category'',
       \<lambda>arguments.
         (case py_get arguments ''category_name'' (JStr []) of
            Inl e \<Rightarrow> Inl e
          | Inr category_name \<Rightarrow> get_kali_tool_category category_name)),
      (''run_kali_security_scan'',
       \<lambda>arguments.
         (case py_get arguments ''target'' (JStr ''example.com'') of
            Inl e \<Rightarrow> Inl e
          | Inr target \<Rightarrow>
              (case py_get arguments ''scan_type'' (JStr ''reconnaissance'') of
                 Inl e \<Rightarrow> Inl e
               | Inr scan_type \<Rightarrow> run_kali_security_scan env target scan_type))),
      (''get_bleeding_edge_status'', \<lambda>arguments. get_bleeding_edge_status env),
      (''generate_kali_security_report'',
       \<lambda>arguments.
         (case py_get arguments ''report_type'' (JStr ''comprehensive'') of
            Inl e \<Rightarrow> Inl e
          | Inr report_type \<Rightarrow> generate_kali_security_report env report_type))]"

section \<open>The process lifetime\<close>

text \<open>
  The three routes. None of them assigns to \<open>self.server_state\<close>, so each leaves the
  state as it found it; every request comes with its own environment.
\<close>

datatype request = PostMcp "exn + json" | GetHealth | GetSse nat

datatype reply = Http http_response | HealthJson json | Events "json list"

definition serve :: "server_state \<Rightarrow> env \<times> request \<Rightarrow> reply \<times> server_state" where
  "serve st er =
     (case er of
        (env, PostMcp request_json) \<Rightarrow> (Http (handle_mcp_request env st request_json), st)
      | (env, GetHealth) \<Rightarrow> (HealthJson (health_check env st), st)
      | (env, GetSse n) \<Rightarrow> (Events (event_stream env st n), st))"

fun run :: "server_state \<Rightarrow> (env \<times> request) list \<Rightarrow> server_state" where
  "run st [] = st"
| "run st (er # ers) = run (snd (serve st er)) ers"

section \<open>A concrete environment\<close>

definition example_env :: env where
  "example_env =
     \<lparr>tracing = True,
      uuid4 = ''0b8f4e0a-3c1d-4f6e-9a52-7d1c2e5f8a90'',
      now_isoformat = ''2025-01-01T12:00:00.000000'',
      heartbeat_time = (\<lambda>i. ''2025-01-01T12:00:00.000000+'' @ show_nat (30 * i)),
      py_repr = (\<lambda>v. ''<repr>''),
      arsenal_info_text = ''<arsenal>'',
      scan_text = (\<lambda>target scan_type. ''<scan '' @ target @ '' '' @ scan_type @ ''>''),
      status_text = ''<status>'',
      report_text = (\<lambda>report_type. ''<report '' @ report_type @ ''>'')\<rparr>"

section \<open>Auxiliary facts\<close>

lemma py_get_obj: "py_get (JObj kvs) k d = Inr (dict_get kvs k d)"
  by (simp add: py_get_def)

lemma py_get_not_obj: "\<not> is_object v \<Longrightarrow> py_get v k d = Inl (no_attribute v ''get'')"
  by (cases v) (simp_all add: py_get_def)

lemma py_contains_hashable:
  "hashable k \<Longrightarrow> py_contains d k = Inr (k \<in> JStr ` fst ` set d)"
  by (cases k) (auto simp: py_contains_def)

lemma dispatch_obj:
  "mcp_dispatch env st (Inr (JObj body)) =
    (let method = dict_get body ''method'' (JStr []);
         params = dict_get body ''params'' (JObj []);
         request_id = dict_get body ''id'' (JStr (uuid4 env))
     in if method = JStr ''tools/list'' then
           Inr (rpc_result request_id (JObj [(''tools'', JArr (tools_list st))]))
         else if method = JStr ''tools/call'' then
           (case py_get params ''name'' (JStr []) of Inl e \<Rightarrow> Inl e | Inr tool_name \<Rightarrow>
           (case py_get params ''arguments'' (JObj []) of Inl e \<Rightarrow> Inl e | Inr arguments \<Rightarrow>
           (case py_contains (tools st) tool_name of
              Inl e \<Rightarrow> Inl e
            | Inr True \<Rightarrow>
                (case execute_tool env tool_name arguments of
                   Inl e \<Rightarrow> Inl e
                 | Inr result \<Rightarrow> Inr (rpc_result request_id (text_content result)))
            | Inr False \<Rightarrow>
                Inr (rpc_error request_id (- 32601)
                       (''Tool not found: '' @ py_str env tool_name)))))
         else if method = JStr ''initialize'' then
           Inr (rpc_result request_id
                  (JObj [(''protocolVersion'', JStr MCP_VERSION),
                         (''capabilities'', capabilities st),
                         (''serverInfo'', SERVER_INFO)]))
         else
           Inr (rpc_error request_id (- 32601)
                  (''Method not found: '' @ py_str env method)))"
  by (simp add: mcp_dispatch_def py_get_obj Let_def)

lemma dispatch_call:
  assumes "dict_get body ''method'' (JStr []) = JStr ''tools/call''"
      and "dict_get body ''params'' (JObj []) = JObj params"
      and "hashable (dict_get params ''name'' (JStr []))"
  shows "mcp_dispatch env st (Inr (JObj body)) =
     (let tool_name = dict_get params ''name'' (JStr []);
          arguments = dict_get params ''arguments'' (JObj []);
          request_id = dict_get body ''id'' (JStr (uuid4 env))
      in if tool_name \<in> JStr ` fst ` set (tools st) then
           (case execute_tool env tool_name arguments of
                   Inl e \<Rightarrow> Inl e
                 | Inr result \<Rightarrow> Inr (rpc_result request_id (text_content result)))
         else Inr (rpc_error request_id (- 32601) (''Tool not found: '' @ py_str env tool_name)))"
  using assms by (simp add: dispatch_obj py_get_obj py_contains_hashable Let_def)

lemma execute_tool_traced:
  "tracing env \<longrightarrow> has_len arguments \<Longrightarrow>
     execute_tool env tool_name arguments = Inr (execute_tool_impl env tool_name arguments)"
  by (simp add: execute_tool_def)

lemma dispatch_registered:
  assumes "dict_get body ''method'' (JStr []) = JStr ''tools/call''"
      and "dict_get body ''params'' (JObj []) = JObj params"
      and "dict_get params ''name'' (JStr []) = JStr n"
      and "n \<in> fst ` set (tools st)"
      and "tracing env \<longrightarrow> has_len (dict_get params ''arguments'' (JObj []))"
  shows "mcp_dispatch env st (Inr (JObj body)) =
           Inr (rpc_result (dict_get body ''id'' (JStr (uuid4 env)))
                  (text_content
                     (execute_tool_impl env (JStr n) (dict_get params ''arguments'' (JObj [])))))"
  using assms by (simp add: dispatch_call execute_tool_traced Let_def image_iff)

lemma mcp_server_names:
  "map fst (tools mcp_server) =
     [''get_complete_kali_arsenal_info'', ''get_kali_tool_category'',
      ''run_kali_security_scan'', ''get_bleeding_edge_status'',
      ''generate_kali_security_report'']"
  by (simp add: mcp_server_def server_init_def register_mcp_tools_def Let_def)

lemma mcp_server_descriptor_names:
  "map (field ''name'') (tools_list mcp_server) =
     map (\<lambda>k. Some (JStr k)) (map fst (tools mcp_server))"
  by (simp add: tools_list_def tool_descriptor_def field_def mcp_server_def server_init_def
        register_mcp_tools_def Let_def)

lemma execute_tool_try_handlers:
  "execute_tool_try env (JStr n) arguments =
     (case map_of (tool_handlers env) n of
        Some handler \<Rightarrow> handler arguments
      | None \<Rightarrow> Inr (''Unknown tool: '' @ n))"
  by (simp add: execute_tool_try_def tool_handlers_def py_str_def)

lemma mcp_server_name_set:
  "fst ` set (tools mcp_server) =
     {''get_complete_kali_arsenal_info'', ''get_kali_tool_category'',
      ''run_kali_security_scan'', ''get_bleeding_edge_status'',
      ''generate_kali_security_report''}"
  using arg_cong [OF mcp_server_names, of set] by simp

lemma handle_ok:
  "mcp_dispatch env st rq = Inr response \<Longrightarrow>
     handle_mcp_request env st rq = \<lparr>status_code = 200, content = response\<rparr>"
  by (simp add: handle_mcp_request_def)

lemma handle_raised:
  "mcp_dispatch env st rq = Inl e \<Longrightarrow>
     handle_mcp_request env st rq =
       \<lparr>status_code = 500,
        content = rpc_error (JStr ''error'') (- 32603) (''Internal error: '' @ exn_str env e)\<rparr>"
  by (simp add: handle_mcp_request_def)

lemma dispatch_unknown_method:
  assumes "dict_get body ''method'' (JStr []) = method"
      and "method \<noteq> JStr ''initialize''" and "method \<noteq> JStr ''tools/list''"
      and "method \<noteq> JStr ''tools/call''"
  shows "mcp_dispatch env st (Inr (JObj body)) =
           Inr (rpc_error (dict_get body ''id'' (JStr (uuid4 env))) (- 32601)
                  (''Method not found: '' @ py_str env method))"
  using assms by (auto simp: dispatch_obj Let_def)

lemma dispatch_tools_list:
  "dict_get body ''method'' (JStr []) = JStr ''tools/list'' \<Longrightarrow>
     mcp_dispatch env st (Inr (JObj body)) =
       Inr (rpc_result (dict_get body ''id'' (JStr (uuid4 env)))
              (JObj [(''tools'', JArr (tools_list st))]))"
  by (simp add: dispatch_obj Let_def)

lemma filter_name_once:
  "distinct ks \<Longrightarrow> n \<in> set ks \<Longrightarrow> length (filter (\<lambda>k. k = n) ks) = 1"
  by (induction ks) (auto simp: filter_empty_conv)

lemma mcp_server_descriptor_once:
  assumes "n \<in> fst ` set (tools mcp_server)"
  shows "length (filter (\<lambda>d. field ''name'' d = Some (JStr n)) (tools_list mcp_server)) = 1"
proof -
  have "length (filter (\<lambda>d. field ''name'' d = Some (JStr n)) (tools_list mcp_server))
        = length (filter (\<lambda>v. v = Some (JStr n)) (map (field ''name'') (tools_list mcp_server)))"
    by (simp add: filter_map comp_def)
  also have "\<dots> = length (filter (\<lambda>k. k = n) (map fst (tools mcp_server)))"
    by (simp add: mcp_server_descriptor_names filter_map comp_def)
  also have "\<dots> = 1"
    using assms by (intro filter_name_once) (simp_all add: mcp_server_names mcp_server_name_set)
  finally show ?thesis .
qed


lemma dict_get_present: "map_of kvs k = Some v \<Longrightarrow> dict_get kvs k d = v"
  by (simp add: dict_get_def)

lemma dict_get_absent: "map_of kvs k = None \<Longrightarrow> dict_get kvs k d = d"
  by (simp add: dict_get_def)

lemma heartbeat_loop_length: "length (heartbeat_loop env i n) = n"
  by (induction n arbitrary: i) simp_all

lemma heartbeat_loop_nth:
  "k < n \<Longrightarrow> heartbeat_loop env i n ! k = heartbeat_event (heartbeat_time env (i + k))"
proof (induction n arbitrary: i k)
  case 0
  then show ?case by simp
next
  case (Suc n)
  then show ?case by (cases k) simp_all
qed

lemma event_stream_length: "length (event_stream env st n) = n"
  by (cases n) (simp_all add: heartbeat_loop_length)

lemma event_stream_first: "0 < n \<Longrightarrow> event_stream env st n ! 0 = initialize_event st"
  by (cases n) simp_all

lemma event_stream_later:
  "0 < i \<Longrightarrow> i < n \<Longrightarrow>
     event_stream env st n ! i = heartbeat_event (heartbeat_time env (i - 1))"
  by (cases n; cases i) (simp_all add: heartbeat_loop_nth)

lemma field_method_events [simp]:
  "field ''method'' (initialize_event st) = Some (JStr ''initialize'')"
  "field ''method'' (heartbeat_event t) = Some (JStr ''heartbeat'')"
  by (simp_all add: field_def initialize_event_def heartbeat_event_def)

lemma arsenal_names:
  "map fst get_kali_arsenal_data =
     [''Information Gathering'', ''Vulnerability Analysis'', ''Web Applications'',
      ''Password Attacks'', ''Wireless Attacks'', ''Exploitation Tools'', ''Forensics'',
      ''Reverse Engineering'', ''Hardware Hacking'', ''Crypto & Stego'', ''Reporting Tools'',
      ''Social Engineering'', ''Sniffing & Spoofing'']"
  by (simp add: get_kali_arsenal_data_def)

lemma py_join_contains:
  "x \<in> set xs \<Longrightarrow> \<exists>p s. py_join sep xs = p @ x @ s"
proof (induction sep xs rule: py_join.induct)
  case (1 sep)
  then show ?case by simp
next
  case (2 sep y)
  then have "py_join sep [y] = [] @ x @ []" by simp
  then show ?case by blast
next
  case (3 sep y z zs)
  show ?case
  proof (cases "x = y")
    case True
    then have "py_join sep (y # z # zs) = [] @ x @ (sep @ py_join sep (z # zs))" by simp
    then show ?thesis by blast
  next
    case False
    with 3 obtain p s where "py_join sep (z # zs) = p @ x @ s" by auto
    then have "py_join sep (y # z # zs) = (y @ sep @ p) @ x @ s" by simp
    then show ?thesis by blast
  qed
qed

lemma invalid_category_returned:
  assumes "\<not> py_truthy c \<or> (hashable c \<and> c \<notin> JStr ` fst ` set get_kali_arsenal_data)"
  shows "get_kali_tool_category c = Inr invalid_category"
proof (cases "py_truthy c")
  case False
  then show ?thesis by (simp add: get_kali_tool_category_def)
next
  case True
  with assms have "hashable c" and "c \<notin> JStr ` fst ` set get_kali_arsenal_data" by auto
  then show ?thesis
    by (simp add: get_kali_tool_category_def py_contains_hashable)
qed

lemma dispatch_decode_error: "mcp_dispatch env st (Inl e) = Inl e"
  by (simp add: mcp_dispatch_def)

lemma dispatch_not_object:
  "\<not> is_object data \<Longrightarrow> mcp_dispatch env st (Inr data) = Inl (no_attribute data ''get'')"
  by (simp add: mcp_dispatch_def py_get_not_obj)





lemma run_unchanged: "run st ers = st"
  by (induction ers arbitrary: st) (simp_all add: serve_def split: prod.splits request.splits)

lemma total_tool_count_value: "get_total_tool_count = 711"
  by (simp add: get_total_tool_count_def get_kali_arsenal_data_def additional_tools_count_def)

lemma dispatch_not_raises:
  assumes "\<not> dispatch_raises env st body"
  shows "(\<exists>r. mcp_dispatch env st (Inr (JObj body)) =
               Inr (rpc_result (dict_get body ''id'' (JStr (uuid4 env))) r))
       \<or> (\<exists>c m. mcp_dispatch env st (Inr (JObj body)) =
               Inr (rpc_error (dict_get body ''id'' (JStr (uuid4 env))) c m))"
proof (cases "dict_get body ''method'' (JStr []) = JStr ''tools/call''")
  case False
  then show ?thesis by (auto simp: dispatch_obj Let_def)
next
  case True
  with assms obtain params where
    p: "dict_get body ''params'' (JObj []) = JObj params"
    and h: "hashable (dict_get params ''name'' (JStr []))"
    and l: "dict_get params ''name'' (JStr []) \<in> JStr ` fst ` set (tools st)
            \<longrightarrow> tracing env \<longrightarrow> has_len (dict_get params ''arguments'' (JObj []))"
    by (auto simp: dispatch_raises_def split: json.splits)
  show ?thesis
    using True p h l by (auto simp: dispatch_call Let_def execute_tool_traced)
qed

lemma dispatch_raises_exception:
  assumes "dispatch_raises env st body"
  shows "\<exists>e. mcp_dispatch env st (Inr (JObj body)) = Inl e"
proof -
  from assms have m: "dict_get body ''method'' (JStr []) = JStr ''tools/call''"
    by (simp add: dispatch_raises_def)
  show ?thesis
  proof (cases "is_object (dict_get body ''params'' (JObj []))")
    case False
    then show ?thesis
      using m by (simp add: dispatch_obj Let_def py_get_not_obj)
  next
    case True
    then obtain params where p: "dict_get body ''params'' (JObj []) = JObj params"
      by (cases "dict_get body ''params'' (JObj [])") simp_all
    show ?thesis
    proof (cases "hashable (dict_get params ''name'' (JStr []))")
      case False
      then show ?thesis
        using m p
        by (cases "dict_get params ''name'' (JStr [])")
           (simp_all add: dispatch_obj Let_def py_get_obj py_contains_def)
    next
      case True
      with assms p have
        "dict_get params ''name'' (JStr []) \<in> JStr ` fst ` set (tools st)"
        "tracing env" "\<not> has_len (dict_get params ''arguments'' (JObj []))"
        by (simp_all add: dispatch_raises_def)
      then show ?thesis
        using m p True by (simp add: dispatch_call Let_def execute_tool_def)
    qed
  qed
qed

section \<open>Claims about the request handler\<close>

text \<open>
  C1. A \<open>tools/call\<close> request whose \<open>params\<close> is an object and whose \<open>name\<close> (the empty
  string when absent) is a hashable value that is not a key of the registry is answered,
  with status 200, by the error \<open>-32601\<close> with the message \<open>Tool not found: <name>\<close>; the
  response has no \<open>result\<close>. For a name that is a string the text embedded is the name
  itself.
\<close>

theorem unregistered_tool_not_found:
  assumes "dict_get body ''method'' (JStr []) = JStr ''tools/call''"
      and "dict_get body ''params'' (JObj []) = JObj params"
      and "dict_get params ''name'' (JStr []) = tool_name"
      and "hashable tool_name"
      and "tool_name \<notin> JStr ` fst ` set (tools st)"
  shows "handle_mcp_request env st (Inr (JObj body)) =
           \<lparr>status_code = 200,
            content = JObj [(''jsonrpc'', JStr ''2.0''),
                            (''id'', (dict_get body ''id'' (JStr (uuid4 env)))),
                            (''error'',
                             JObj [(''code'', JNum (- 32601)),
                                   (''message'', JStr (''Tool not found: '' @ py_str env tool_name))])]\<rparr>
         \<and> field ''result'' (content (handle_mcp_request env st (Inr (JObj body)))) = None
         \<and> (\<forall>n. tool_name = JStr n \<longrightarrow> py_str env tool_name = n)"
  using assms by (auto simp: handle_mcp_request_def dispatch_call py_str_def rpc_error_def field_def)

theorem unregistered_tool_not_found_witness:
  "handle_mcp_request example_env mcp_server
     (Inr (JObj [(''jsonrpc'', JStr ''2.0''), (''id'', JNum 7), (''method'', JStr ''tools/call''),
                 (''params'', JObj [(''name'', JStr ''nonexistent_tool'')])])) =
     \<lparr>status_code = 200,
      content = JObj [(''jsonrpc'', JStr ''2.0''),
                      (''id'', (JNum 7)),
                      (''error'',
                       JObj [(''code'', JNum (- 32601)),
                             (''message'', JStr ''Tool not found: nonexistent_tool'')])]\<rparr>"
  using unregistered_tool_not_found
    [of "[(''jsonrpc'', JStr ''2.0''), (''id'', JNum 7), (''method'', JStr ''tools/call''),
          (''params'', JObj [(''name'', JStr ''nonexistent_tool'')])]"
        "[(''name'', JStr ''nonexistent_tool'')]" "JStr ''nonexistent_tool''" mcp_server
        example_env]
  by (simp add: dict_get_def mcp_server_name_set py_str_def)

text \<open>
  C6. A request whose body is an object and whose method (the empty string when absent) is
  none of \<open>initialize\<close>, \<open>tools/list\<close>, \<open>tools/call\<close> is answered, with status 200, by the
  error \<open>-32601\<close> with the message \<open>Method not found: <method>\<close>.
\<close>

theorem unknown_method_not_found:
  assumes "dict_get body ''method'' (JStr []) = method"
      and "method \<notin> {JStr ''initialize'', JStr ''tools/list'', JStr ''tools/call''}"
  shows "handle_mcp_request env st (Inr (JObj body)) =
           \<lparr>status_code = 200,
            content = JObj [(''jsonrpc'', JStr ''2.0''),
                            (''id'', (dict_get body ''id'' (JStr (uuid4 env)))),
                            (''error'',
                             JObj [(''code'', JNum (- 32601)),
                                   (''message'', JStr (''Method not found: '' @ py_str env method))])]\<rparr>
         \<and> (\<forall>m. method = JStr m \<longrightarrow> py_str env method = m)"
  using assms by (auto simp: handle_ok dispatch_unknown_method py_str_def rpc_error_def)

theorem unknown_method_not_found_witness:
  "handle_mcp_request example_env mcp_server
     (Inr (JObj [(''jsonrpc'', JStr ''2.0''), (''id'', JNum 1), (''method'', JStr ''foo/bar'')])) =
     \<lparr>status_code = 200,
      content = JObj [(''jsonrpc'', JStr ''2.0''),
                      (''id'', (JNum 1)),
                      (''error'',
                       JObj [(''code'', JNum (- 32601)),
                             (''message'', JStr ''Method not found: foo/bar'')])]\<rparr>"
  using unknown_method_not_found
    [of "[(''jsonrpc'', JStr ''2.0''), (''id'', JNum 1), (''method'', JStr ''foo/bar'')]"
        "JStr ''foo/bar''" example_env mcp_server]
  by (simp add: dict_get_def py_str_def)

text \<open>
  C2. A \<open>tools/call\<close> request that names a registered tool and whose tool call raises an
  exception \<open>e\<close> inside \<open>_execute_tool_impl\<close> is answered, with status 200, by a result whose
  content is the text \<open>Tool execution failed: <str(e)>\<close> with \<open>isError\<close> false; the response
  has no \<open>error\<close>.
\<close>

theorem raising_tool_answered_as_result:
  assumes "dict_get body ''method'' (JStr []) = JStr ''tools/call''"
      and "dict_get body ''params'' (JObj []) = JObj params"
      and "dict_get params ''name'' (JStr []) = JStr n"
      and "n \<in> fst ` set (tools st)"
      and "dict_get params ''arguments'' (JObj []) = arguments"
      and "tracing env \<longrightarrow> has_len arguments"
      and "execute_tool_try env (JStr n) arguments = Inl e"
  shows "handle_mcp_request env st (Inr (JObj body)) =
           \<lparr>status_code = 200,
            content = JObj [(''jsonrpc'', JStr ''2.0''),
                            (''id'', (dict_get body ''id'' (JStr (uuid4 env)))),
                            (''result'',
                             (JObj [(''content'',
                                JArr [JObj [(''type'', JStr ''text''),
                                            (''text'', JStr (''Tool execution failed: '' @ exn_str env e))]]),
                               (''isError'', JBool False)]))]\<rparr>
         \<and> field ''error'' (content (handle_mcp_request env st (Inr (JObj body)))) = None"
  using assms
  by (simp add: handle_ok dispatch_registered execute_tool_impl_def text_content_def rpc_result_def field_def)

theorem raising_tool_answered_as_result_witness:
  "handle_mcp_request example_env mcp_server
     (Inr (JObj [(''jsonrpc'', JStr ''2.0''), (''id'', JStr ''abc''),
                 (''method'', JStr ''tools/call''),
                 (''params'',
                  JObj [(''name'', JStr ''get_kali_tool_category''),
                        (''arguments'', JObj [(''category_name'', JArr [JStr ''x''])])])])) =
     \<lparr>status_code = 200,
      content =
        JObj [(''jsonrpc'', JStr ''2.0''),
              (''id'', (JStr ''abc'')),
              (''result'',
               (JObj [(''content'',
                  JArr [JObj [(''type'', JStr ''text''),
                              (''text'',
                               JStr (''Tool execution failed: unhashable type: ''
                                     @ quote ''list''))]]),
                 (''isError'', JBool False)]))]\<rparr>"
  using raising_tool_answered_as_result
    [of "[(''jsonrpc'', JStr ''2.0''), (''id'', JStr ''abc''),
          (''method'', JStr ''tools/call''),
          (''params'',
           JObj [(''name'', JStr ''get_kali_tool_category''),
                 (''arguments'', JObj [(''category_name'', JArr [JStr ''x''])])])]"
        "[(''name'', JStr ''get_kali_tool_category''),
          (''arguments'', JObj [(''category_name'', JArr [JStr ''x''])])]"
        "''get_kali_tool_category''" mcp_server
        "JObj [(''category_name'', JArr [JStr ''x''])]" example_env
        "unhashable (JArr [JStr ''x''])"]
  by (simp add: dict_get_def mcp_server_name_set execute_tool_try_def py_get_def
        get_kali_tool_category_def py_contains_def unhashable_def)

text \<open>
  C3. On the server that the module builds, for every registered tool name \<open>n\<close>: a
  \<open>tools/list\<close> request returns the descriptors of the registry in registration order,
  exactly one of them with the name \<open>n\<close>; and a \<open>tools/call\<close> request with the name \<open>n\<close>
  runs the branch of \<open>_execute_tool_impl\<close> for \<open>n\<close> on \<open>params.arguments\<close> (the empty dict
  when absent) and returns its text as \<open>{content: [{type: "text", text}], isError: false}\<close>.
  With tracing on the arguments must have a length.
\<close>

theorem registered_tool_listed_and_invoked:
  assumes "n \<in> fst ` set (tools mcp_server)"
      and "dict_get lbody ''method'' (JStr []) = JStr ''tools/list''"
      and "dict_get cbody ''method'' (JStr []) = JStr ''tools/call''"
      and "dict_get cbody ''params'' (JObj []) = JObj params"
      and "dict_get params ''name'' (JStr []) = JStr n"
      and "dict_get params ''arguments'' (JObj []) = arguments"
      and "tracing env \<longrightarrow> has_len arguments"
  shows "handle_mcp_request env mcp_server (Inr (JObj lbody)) =
           \<lparr>status_code = 200,
            content = JObj [(''jsonrpc'', JStr ''2.0''),
                            (''id'', (dict_get lbody ''id'' (JStr (uuid4 env)))),
                            (''result'',
                             (JObj [(''tools'', JArr (tools_list mcp_server))]))]\<rparr>
         \<and> map (field ''name'') (tools_list mcp_server) =
             map (\<lambda>k. Some (JStr k))
               [''get_complete_kali_arsenal_info'', ''get_kali_tool_category'',
                ''run_kali_security_scan'', ''get_bleeding_edge_status'',
                ''generate_kali_security_report'']
         \<and> length (filter (\<lambda>d. field ''name'' d = Some (JStr n)) (tools_list mcp_server)) = 1
         \<and> (\<exists>handler. map_of (tool_handlers env) n = Some handler
               \<and> handle_mcp_request env mcp_server (Inr (JObj cbody)) =
                   \<lparr>status_code = 200,
                    content = JObj [(''jsonrpc'', JStr ''2.0''),
                                    (''id'', (dict_get cbody ''id'' (JStr (uuid4 env)))),
                                    (''result'',
                                     (JObj [(''content'',
                              JArr [JObj [(''type'', JStr ''text''),
                                          (''text'',
                                           JStr (case handler arguments of
                                                   Inr text \<Rightarrow> text
                                                 | Inl e \<Rightarrow> ''Tool execution failed: '' @ exn_str env e))]]),
                             (''isError'', JBool False)]))]\<rparr>)
         \<and> (map_of params ''arguments'' = None \<longrightarrow> arguments = JObj [])"
proof -
  have names: "n \<in> {''get_complete_kali_arsenal_info'', ''get_kali_tool_category'',
      ''run_kali_security_scan'', ''get_bleeding_edge_status'',
      ''generate_kali_security_report''}"
    using assms(1) by (simp add: mcp_server_name_set)
  then obtain handler where h: "map_of (tool_handlers env) n = Some handler"
    by (auto simp: tool_handlers_def)
  have call: "handle_mcp_request env mcp_server (Inr (JObj cbody)) =
     \<lparr>status_code = 200,
      content = rpc_result (dict_get cbody ''id'' (JStr (uuid4 env)))
                  (text_content (execute_tool_impl env (JStr n) arguments))\<rparr>"
    using assms by (simp add: handle_ok dispatch_registered)
  have impl: "execute_tool_impl env (JStr n) arguments =
      (case handler arguments of Inr text \<Rightarrow> text
       | Inl e \<Rightarrow> ''Tool execution failed: '' @ exn_str env e)"
    by (simp add: execute_tool_impl_def execute_tool_try_handlers h)
  have lst: "handle_mcp_request env mcp_server (Inr (JObj lbody)) =
           \<lparr>status_code = 200,
            content = rpc_result (dict_get lbody ''id'' (JStr (uuid4 env)))
                        (JObj [(''tools'', JArr (tools_list mcp_server))])\<rparr>"
    using assms(2) by (simp add: handle_ok dispatch_tools_list)
  have dflt: "map_of params ''arguments'' = None \<longrightarrow> arguments = JObj []"
    using assms(6) by (auto simp: dict_get_def)
  show ?thesis
    using lst h call impl dflt mcp_server_descriptor_once [OF assms(1)]
    by (simp add: mcp_server_descriptor_names mcp_server_names text_content_def rpc_result_def)
qed

theorem registered_tool_listed_and_invoked_witness:
  "handle_mcp_request example_env mcp_server
     (Inr (JObj [(''jsonrpc'', JStr ''2.0''), (''id'', JNum 2), (''method'', JStr ''tools/call''),
                 (''params'', JObj [(''name'', JStr ''get_bleeding_edge_status'')])])) =
     \<lparr>status_code = 200, content = JObj [(''jsonrpc'', JStr ''2.0''),
                                                (''id'', (JNum 2)),
                                                (''result'',
                                                 (JObj [(''content'',
        JArr [JObj [(''type'', JStr ''text''),
                    (''text'', JStr ''<status>'')]]),
       (''isError'', JBool False)]))]\<rparr>
   \<and> handle_mcp_request example_env mcp_server
       (Inr (JObj [(''jsonrpc'', JStr ''2.0''), (''id'', JNum 1), (''method'', JStr ''tools/list'')])) =
     \<lparr>status_code = 200,
      content = JObj [(''jsonrpc'', JStr ''2.0''),
                      (''id'', (JNum 1)),
                      (''result'',
                       (JObj [(''tools'', JArr (tools_list mcp_server))]))]\<rparr>
   \<and> length (filter (\<lambda>d. field ''name'' d = Some (JStr ''get_bleeding_edge_status''))
               (tools_list mcp_server)) = 1"
  using registered_tool_listed_and_invoked
    [of "''get_bleeding_edge_status''"
        "[(''jsonrpc'', JStr ''2.0''), (''id'', JNum 1), (''method'', JStr ''tools/list'')]"
        "[(''jsonrpc'', JStr ''2.0''), (''id'', JNum 2), (''method'', JStr ''tools/call''),
          (''params'', JObj [(''name'', JStr ''get_bleeding_edge_status'')])]"
        "[(''name'', JStr ''get_bleeding_edge_status'')]" "JObj []" example_env]
  by (simp add: dict_get_def mcp_server_name_set tool_handlers_def get_bleeding_edge_status_def
        example_env_def text_content_def)

text \<open>
  C7, counterexample. A \<open>tools/call\<close> request with the id \<open>"abc"\<close> whose \<open>params.name\<close> is a
  list is answered with status 500 by the error \<open>-32603\<close>, and the id of the response is
  \<open>"error"\<close>.
\<close>

theorem request_id_not_echoed_counterexample:
  "handle_mcp_request example_env mcp_server
     (Inr (JObj [(''jsonrpc'', JStr ''2.0''), (''id'', JStr ''abc''),
                 (''method'', JStr ''tools/call''),
                 (''params'', JObj [(''name'', JArr [JStr ''a''])])])) =
     \<lparr>status_code = 500,
      content = JObj [(''jsonrpc'', JStr ''2.0''),
                      (''id'', JStr ''error''),
                      (''error'',
                       JObj [(''code'', JNum (- 32603)),
                             (''message'',
                              JStr (''Internal error: unhashable type: '' @ quote ''list''))])]\<rparr>
   \<and> field ''id'' (content (handle_mcp_request example_env mcp_server
         (Inr (JObj [(''jsonrpc'', JStr ''2.0''), (''id'', JStr ''abc''),
                     (''method'', JStr ''tools/call''),
                     (''params'', JObj [(''name'', JArr [JStr ''a''])])]))))
       \<noteq> Some (JStr ''abc'')"
  by (simp add: handle_mcp_request_def dispatch_obj dict_get_def py_get_def py_contains_def
        unhashable_def rpc_error_def field_def)

text \<open>
  C7, as the code has it. For a request whose body is an object that carries an \<open>id\<close> (the
  claim's \<open>"abc"\<close>, or any other value): unless the dispatch raises an exception, the answer
  has status 200 and the same \<open>id\<close>, with either a \<open>result\<close> or an \<open>error\<close>; when the dispatch
  raises, the answer is the error \<open>-32603\<close> with status 500 and the fixed id \<open>"error"\<close>. The
  dispatch raises exactly on the \<open>tools/call\<close> requests described by \<open>dispatch_raises\<close>.
\<close>

theorem request_id_echoed_unless_raised:
  assumes "map_of body ''id'' = Some request_id"
  shows "(\<not> dispatch_raises env st body \<longrightarrow>
            status_code (handle_mcp_request env st (Inr (JObj body))) = 200
            \<and> field ''id'' (content (handle_mcp_request env st (Inr (JObj body))))
                = Some request_id
            \<and> (field ''result'' (content (handle_mcp_request env st (Inr (JObj body)))) = None
                 \<longleftrightarrow> field ''error'' (content (handle_mcp_request env st (Inr (JObj body))))
                       \<noteq> None))
       \<and> (dispatch_raises env st body \<longrightarrow>
            (\<exists>e. handle_mcp_request env st (Inr (JObj body)) =
               \<lparr>status_code = 500,
                content = JObj [(''jsonrpc'', JStr ''2.0''),
                                (''id'', JStr ''error''),
                                (''error'',
                                 JObj [(''code'', JNum (- 32603)),
                                       (''message'',
                                        JStr (''Internal error: '' @ exn_str env e))])]\<rparr>))"
proof (intro conjI impI)
  assume n: "\<not> dispatch_raises env st body"
  show "status_code (handle_mcp_request env st (Inr (JObj body))) = 200"
    using dispatch_not_raises [OF n] by (auto simp: handle_mcp_request_def)
  show "field ''id'' (content (handle_mcp_request env st (Inr (JObj body)))) = Some request_id"
    using dispatch_not_raises [OF n] dict_get_present [OF assms]
    by (auto simp: handle_mcp_request_def rpc_result_def rpc_error_def field_def)
  show "field ''result'' (content (handle_mcp_request env st (Inr (JObj body)))) = None
          \<longleftrightarrow> field ''error'' (content (handle_mcp_request env st (Inr (JObj body)))) \<noteq> None"
    using dispatch_not_raises [OF n]
    by (auto simp: handle_mcp_request_def rpc_result_def rpc_error_def field_def)
next
  assume r: "dispatch_raises env st body"
  then obtain e where "mcp_dispatch env st (Inr (JObj body)) = Inl e"
    using dispatch_raises_exception by blast
  then have "handle_mcp_request env st (Inr (JObj body)) =
               \<lparr>status_code = 500,
                content = JObj [(''jsonrpc'', JStr ''2.0''),
                                (''id'', JStr ''error''),
                                (''error'',
                                 JObj [(''code'', JNum (- 32603)),
                                       (''message'',
                                        JStr (''Internal error: '' @ exn_str env e))])]\<rparr>"
    by (simp add: handle_mcp_request_def rpc_error_def)
  then show "\<exists>e. handle_mcp_request env st (Inr (JObj body)) =
               \<lparr>status_code = 500,
                content = JObj [(''jsonrpc'', JStr ''2.0''),
                                (''id'', JStr ''error''),
                                (''error'',
                                 JObj [(''code'', JNum (- 32603)),
                                       (''message'',
                                        JStr (''Internal error: '' @ exn_str env e))])]\<rparr>"
    by blast
qed

theorem request_id_echoed_unless_raised_witness:
  "field ''id'' (content (handle_mcp_request example_env mcp_server
     (Inr (JObj [(''jsonrpc'', JStr ''2.0''), (''id'', JStr ''abc''),
                 (''method'', JStr ''tools/call''),
                 (''params'', JObj [(''name'', JStr ''nonexistent_tool'')])])))) =
     Some (JStr ''abc'')
   \<and> status_code (handle_mcp_request example_env mcp_server
     (Inr (JObj [(''jsonrpc'', JStr ''2.0''), (''id'', JStr ''abc''),
                 (''method'', JStr ''tools/call''),
                 (''params'', JObj [(''name'', JStr ''nonexistent_tool'')])]))) = 200
   \<and> status_code (handle_mcp_request example_env mcp_server
     (Inr (JObj [(''jsonrpc'', JStr ''2.0''), (''id'', JStr ''abc''),
                 (''method'', JStr ''tools/call''),
                 (''params'',
                  JObj [(''name'', JStr ''get_bleeding_edge_status''),
                        (''arguments'', JNull)])]))) = 500"
proof -
  have a: "\<not> dispatch_raises example_env mcp_server
             [(''jsonrpc'', JStr ''2.0''), (''id'', JStr ''abc''),
              (''method'', JStr ''tools/call''),
              (''params'', JObj [(''name'', JStr ''nonexistent_tool'')])]"
    by (simp add: dispatch_raises_def dict_get_def mcp_server_name_set)
  have b: "dispatch_raises example_env mcp_server
             [(''jsonrpc'', JStr ''2.0''), (''id'', JStr ''abc''),
              (''method'', JStr ''tools/call''),
              (''params'',
               JObj [(''name'', JStr ''get_bleeding_edge_status''), (''arguments'', JNull)])]"
    by (simp add: dispatch_raises_def dict_get_def mcp_server_name_set example_env_def)
  have ida: "map_of [(''jsonrpc'', JStr ''2.0''), (''id'', JStr ''abc''),
              (''method'', JStr ''tools/call''),
              (''params'', JObj [(''name'', JStr ''nonexistent_tool'')])] ''id''
            = Some (JStr ''abc'')"
    by simp
  have idb: "map_of [(''jsonrpc'', JStr ''2.0''), (''id'', JStr ''abc''),
              (''method'', JStr ''tools/call''),
              (''params'',
               JObj [(''name'', JStr ''get_bleeding_edge_status''), (''arguments'', JNull)])]
              ''id'' = Some (JStr ''abc'')"
    by simp
  from request_id_echoed_unless_raised [OF ida, of example_env mcp_server] a
  have "status_code (handle_mcp_request example_env mcp_server
     (Inr (JObj [(''jsonrpc'', JStr ''2.0''), (''id'', JStr ''abc''),
                 (''method'', JStr ''tools/call''),
                 (''params'', JObj [(''name'', JStr ''nonexistent_tool'')])]))) = 200
     \<and> field ''id'' (content (handle_mcp_request example_env mcp_server
     (Inr (JObj [(''jsonrpc'', JStr ''2.0''), (''id'', JStr ''abc''),
                 (''method'', JStr ''tools/call''),
                 (''params'', JObj [(''name'', JStr ''nonexistent_tool'')])])))) =
     Some (JStr ''abc'')"
    by blast
  moreover from request_id_echoed_unless_raised [OF idb, of example_env mcp_server] b
  obtain e where "handle_mcp_request example_env mcp_server
     (Inr (JObj [(''jsonrpc'', JStr ''2.0''), (''id'', JStr ''abc''),
                 (''method'', JStr ''tools/call''),
                 (''params'',
                  JObj [(''name'', JStr ''get_bleeding_edge_status''),
                        (''arguments'', JNull)])])) =
               \<lparr>status_code = 500,
                content = JObj [(''jsonrpc'', JStr ''2.0''),
                                (''id'', JStr ''error''),
                                (''error'',
                                 JObj [(''code'', JNum (- 32603)),
                                       (''message'',
                                        JStr (''Internal error: '' @ exn_str example_env e))])]\<rparr>"
    by blast
  ultimately show ?thesis by simp
qed

text \<open>
  C9. In every session in which at least one event is sent, the first event is the
  \<open>initialize\<close> event, whose parameters are the protocol version, the capabilities and the
  server information; every later event is a heartbeat, so a heartbeat is never at the first
  position.
\<close>

theorem initialize_precedes_heartbeats:
  assumes "0 < n"
  shows "length (event_stream env st n) = n
         \<and> event_stream env st n ! 0 =
             JObj [(''jsonrpc'', JStr ''2.0''), (''method'', JStr ''initialize''),
                   (''params'',
                    JObj [(''protocolVersion'', JStr MCP_VERSION),
                          (''capabilities'', capabilities st),
                          (''serverInfo'', SERVER_INFO)])]
         \<and> (\<forall>i < n. (field ''method'' (event_stream env st n ! i) = Some (JStr ''heartbeat''))
                        = (0 < i))
         \<and> (\<forall>i < n. (field ''method'' (event_stream env st n ! i) = Some (JStr ''initialize''))
                        = (i = 0))"
proof -
  have first: "event_stream env st n ! 0 = initialize_event st"
    using assms by (rule event_stream_first)
  have later: "\<And>i. 0 < i \<Longrightarrow> i < n \<Longrightarrow>
      field ''method'' (event_stream env st n ! i) = Some (JStr ''heartbeat'')"
    by (simp add: event_stream_later)
  have hb: "\<forall>i < n. (field ''method'' (event_stream env st n ! i) = Some (JStr ''heartbeat''))
                        = (0 < i)"
  proof (intro allI impI)
    fix i assume "i < n"
    show "(field ''method'' (event_stream env st n ! i) = Some (JStr ''heartbeat'')) = (0 < i)"
      using later [of i] first \<open>i < n\<close> by (cases "i = 0") simp_all
  qed
  have ini: "\<forall>i < n. (field ''method'' (event_stream env st n ! i) = Some (JStr ''initialize''))
                        = (i = 0)"
  proof (intro allI impI)
    fix i assume "i < n"
    show "(field ''method'' (event_stream env st n ! i) = Some (JStr ''initialize'')) = (i = 0)"
      using later [of i] first \<open>i < n\<close> by (cases "i = 0") simp_all
  qed
  show ?thesis
    using first hb ini by (simp add: event_stream_length initialize_event_def)
qed

theorem initialize_precedes_heartbeats_witness:
  "map (field ''method'') (event_stream example_env mcp_server 3) =
     [Some (JStr ''initialize''), Some (JStr ''heartbeat''), Some (JStr ''heartbeat'')]"
proof -
  have len: "length (event_stream example_env mcp_server 3) = 3"
    and hb: "\<forall>i < 3. (field ''method'' (event_stream example_env mcp_server 3 ! i)
                        = Some (JStr ''heartbeat'')) = (0 < i)"
    and ini: "\<forall>i < 3. (field ''method'' (event_stream example_env mcp_server 3 ! i)
                        = Some (JStr ''initialize'')) = (i = 0)"
    using initialize_precedes_heartbeats [of 3 example_env mcp_server] by simp_all
  have "field ''method'' (event_stream example_env mcp_server 3 ! 0) = Some (JStr ''initialize'')"
    using ini by simp
  moreover have "field ''method'' (event_stream example_env mcp_server 3 ! 1) = Some (JStr ''heartbeat'')"
    using hb by simp
  moreover have "field ''method'' (event_stream example_env mcp_server 3 ! 2) = Some (JStr ''heartbeat'')"
    using hb by simp
  ultimately show ?thesis
    using len by (simp add: list_eq_iff_nth_eq less_Suc_eq numeral_3_eq_3)
qed

text \<open>
  C10. For every argument that is falsy (the empty string among them) or that can be hashed
  and is not a key of the arsenal data, \<open>get_kali_tool_category\<close> returns the text
  \<open>Invalid category. Available categories: \<close> followed by the thirteen category names,
  joined by commas; each category name occurs in it. A \<open>tools/call\<close> request for the tool
  with such a \<open>category_name\<close> (the empty string when absent) in its arguments is answered,
  with status 200, by a result that carries this text with \<open>isError\<close> false.
\<close>

theorem invalid_category_listed:
  assumes "\<not> py_truthy c \<or> (hashable c \<and> c \<notin> JStr ` fst ` set get_kali_arsenal_data)"
  shows "get_kali_tool_category c =
           Inr (''Invalid category. Available categories: ''
                @ py_join '', ''
                    [''Information Gathering'', ''Vulnerability Analysis'', ''Web Applications'',
                     ''Password Attacks'', ''Wireless Attacks'', ''Exploitation Tools'',
                     ''Forensics'', ''Reverse Engineering'', ''Hardware Hacking'',
                     ''Crypto & Stego'', ''Reporting Tools'', ''Social Engineering'',
                     ''Sniffing & Spoofing''])
         \<and> (\<forall>k \<in> fst ` set get_kali_arsenal_data.
               \<exists>p s. get_kali_tool_category c = Inr (p @ k @ s))
         \<and> (dict_get body ''method'' (JStr []) = JStr ''tools/call''
              \<and> dict_get body ''params'' (JObj []) = JObj params
              \<and> dict_get params ''name'' (JStr []) = JStr ''get_kali_tool_category''
              \<and> dict_get params ''arguments'' (JObj []) = JObj arguments
              \<and> dict_get arguments ''category_name'' (JStr []) = c
              \<longrightarrow> handle_mcp_request env mcp_server (Inr (JObj body)) =
                    \<lparr>status_code = 200,
                     content = JObj [(''jsonrpc'', JStr ''2.0''),
                                     (''id'', (dict_get body ''id'' (JStr (uuid4 env)))),
                                     (''result'',
                                      (JObj [(''content'',
                               JArr [JObj [(''type'', JStr ''text''),
                                           (''text'', JStr invalid_category)]]),
                              (''isError'', JBool False)]))]\<rparr>)"
proof -
  have r: "get_kali_tool_category c = Inr invalid_category"
    using assms by (rule invalid_category_returned)
  have tx: "invalid_category = ''Invalid category. Available categories: ''
                @ py_join '', '' (map fst get_kali_arsenal_data)"
    by (simp add: invalid_category_def)
  have each: "\<forall>k \<in> fst ` set get_kali_arsenal_data.
               \<exists>p s. get_kali_tool_category c = Inr (p @ k @ s)"
  proof
    fix k assume "k \<in> fst ` set get_kali_arsenal_data"
    then have "k \<in> set (map fst get_kali_arsenal_data)" by simp
    then obtain p s where "py_join '', '' (map fst get_kali_arsenal_data) = p @ k @ s"
      using py_join_contains by blast
    then have "invalid_category = (''Invalid category. Available categories: '' @ p) @ k @ s"
      by (simp add: invalid_category_def)
    then show "\<exists>p s. get_kali_tool_category c = Inr (p @ k @ s)"
      unfolding r by blast
  qed
  have call: "dict_get body ''method'' (JStr []) = JStr ''tools/call''
              \<and> dict_get body ''params'' (JObj []) = JObj params
              \<and> dict_get params ''name'' (JStr []) = JStr ''get_kali_tool_category''
              \<and> dict_get params ''arguments'' (JObj []) = JObj arguments
              \<and> dict_get arguments ''category_name'' (JStr []) = c
              \<longrightarrow> handle_mcp_request env mcp_server (Inr (JObj body)) =
                    \<lparr>status_code = 200,
                     content = rpc_result (dict_get body ''id'' (JStr (uuid4 env)))
                       (text_content invalid_category)\<rparr>"
  proof (intro impI, elim conjE)
    assume a: "dict_get body ''method'' (JStr []) = JStr ''tools/call''"
      "dict_get body ''params'' (JObj []) = JObj params"
      "dict_get params ''name'' (JStr []) = JStr ''get_kali_tool_category''"
      "dict_get params ''arguments'' (JObj []) = JObj arguments"
      "dict_get arguments ''category_name'' (JStr []) = c"
    have "execute_tool_impl env (JStr ''get_kali_tool_category'') (JObj arguments)
            = invalid_category"
      using a(5) r by (simp add: execute_tool_impl_def execute_tool_try_def py_get_obj)
    moreover have "mcp_dispatch env mcp_server (Inr (JObj body)) =
           Inr (rpc_result (dict_get body ''id'' (JStr (uuid4 env)))
                  (text_content
                     (execute_tool_impl env (JStr ''get_kali_tool_category'')
                        (dict_get params ''arguments'' (JObj [])))))"
      using a(1,2,3,4) by (intro dispatch_registered) (simp_all add: mcp_server_name_set)
    ultimately show "handle_mcp_request env mcp_server (Inr (JObj body)) =
                    \<lparr>status_code = 200,
                     content = rpc_result (dict_get body ''id'' (JStr (uuid4 env)))
                       (text_content invalid_category)\<rparr>"
      using a(4) by (simp add: handle_ok)
  qed
  show ?thesis
    using r each call by (simp add: tx arsenal_names text_content_def rpc_result_def)
qed

theorem invalid_category_listed_witness:
  "get_kali_tool_category (JStr ''Cloud'') =
     Inr (''Invalid category. Available categories: ''
          @ py_join '', ''
              [''Information Gathering'', ''Vulnerability Analysis'', ''Web Applications'',
               ''Password Attacks'', ''Wireless Attacks'', ''Exploitation Tools'',
               ''Forensics'', ''Reverse Engineering'', ''Hardware Hacking'',
               ''Crypto & Stego'', ''Reporting Tools'', ''Social Engineering'',
               ''Sniffing & Spoofing''])
   \<and> handle_mcp_request example_env mcp_server
       (Inr (JObj [(''jsonrpc'', JStr ''2.0''), (''id'', JNum 3), (''method'', JStr ''tools/call''),
                   (''params'',
                    JObj [(''name'', JStr ''get_kali_tool_category''),
                          (''arguments'', JObj [(''category_name'', JStr ''Cloud'')])])])) =
       \<lparr>status_code = 200,
        content = JObj [(''jsonrpc'', JStr ''2.0''),
                        (''id'', (JNum 3)),
                        (''result'',
                         (JObj [(''content'',
        JArr [JObj [(''type'', JStr ''text''),
                    (''text'', JStr invalid_category)]]),
       (''isError'', JBool False)]))]\<rparr>"
proof -
  have names: "fst ` set get_kali_arsenal_data = set (map fst get_kali_arsenal_data)"
    by simp
  have h: "\<not> py_truthy (JStr ''Cloud'')
           \<or> (hashable (JStr ''Cloud'')
               \<and> JStr ''Cloud'' \<notin> JStr ` fst ` set get_kali_arsenal_data)"
    unfolding names arsenal_names by (simp add: image_iff)
  show ?thesis
    using invalid_category_listed
      [OF h,
        of "[(''jsonrpc'', JStr ''2.0''), (''id'', JNum 3), (''method'', JStr ''tools/call''),
             (''params'',
              JObj [(''name'', JStr ''get_kali_tool_category''),
                    (''arguments'', JObj [(''category_name'', JStr ''Cloud'')])])]"
           "[(''name'', JStr ''get_kali_tool_category''),
             (''arguments'', JObj [(''category_name'', JStr ''Cloud'')])]"
           "[(''category_name'', JStr ''Cloud'')]" example_env]
    by (simp add: dict_get_def text_content_def)
qed

text \<open>
  C4, counterexample. A body that is an object without \<open>method\<close> is not answered with
  status 500 and \<open>-32603\<close>: its method is the empty string, and the answer is the error
  \<open>-32601\<close> with status 200.
\<close>

theorem missing_method_counterexample:
  "handle_mcp_request example_env mcp_server
     (Inr (JObj [(''jsonrpc'', JStr ''2.0''), (''id'', JNum 1)])) =
     \<lparr>status_code = 200, content = JObj [(''jsonrpc'', JStr ''2.0''),
                                                (''id'', (JNum 1)),
                                                (''error'',
                                                 JObj [(''code'', JNum (- 32601)),
                                                       (''message'', JStr ''Method not found: '')])]\<rparr>
   \<and> status_code (handle_mcp_request example_env mcp_server
        (Inr (JObj [(''jsonrpc'', JStr ''2.0''), (''id'', JNum 1)]))) \<noteq> 500"
  by (simp add: handle_mcp_request_def dispatch_obj dict_get_def py_str_def rpc_error_def)

text \<open>
  C4, as the code has it. A body that cannot be decoded, or that decodes to a value other
  than an object, is answered with status 500 by the error \<open>-32603\<close> with the message
  \<open>Internal error: <description>\<close> and the id \<open>"error"\<close>. An object without \<open>method\<close> is not
  such a body: it is answered with status 200 by the error \<open>-32601\<close>, \<open>Method not found: \<close>.
\<close>

theorem unparsable_body_internal_error:
  "handle_mcp_request env st (Inl e) =
     \<lparr>status_code = 500,
      content = JObj [(''jsonrpc'', JStr ''2.0''),
                      (''id'', (JStr ''error'')),
                      (''error'',
                       JObj [(''code'', JNum (- 32603)),
                             (''message'', JStr (''Internal error: '' @ exn_str env e))])]\<rparr>
   \<and> (\<not> is_object data \<longrightarrow>
        handle_mcp_request env st (Inr data) =
          \<lparr>status_code = 500,
           content = JObj [(''jsonrpc'', JStr ''2.0''),
                           (''id'', (JStr ''error'')),
                           (''error'',
                            JObj [(''code'', JNum (- 32603)),
                                  (''message'', JStr (''Internal error: '' @ exn_str env (no_attribute data ''get'')))])]\<rparr>)
   \<and> (map_of body ''method'' = None \<longrightarrow>
        handle_mcp_request env st (Inr (JObj body)) =
          \<lparr>status_code = 200,
           content = JObj [(''jsonrpc'', JStr ''2.0''),
                           (''id'', (dict_get body ''id'' (JStr (uuid4 env)))),
                           (''error'',
                            JObj [(''code'', JNum (- 32601)),
                                  (''message'', JStr ''Method not found: '')])]\<rparr>)"
  by (auto simp: handle_raised dispatch_decode_error dispatch_not_object handle_ok
        dispatch_unknown_method [OF refl] dict_get_absent py_str_def rpc_error_def)

theorem unparsable_body_internal_error_witness:
  "handle_mcp_request example_env mcp_server (Inr (JArr [JNum 1, JNum 2])) =
     \<lparr>status_code = 500,
      content = JObj [(''jsonrpc'', JStr ''2.0''),
                      (''id'', (JStr ''error'')),
                      (''error'',
                       JObj [(''code'', JNum (- 32603)),
                             (''message'', JStr (''Internal error: '' @ quote ''list'' @ '' object has no attribute ''
                   @ quote ''get''))])]\<rparr>
   \<and> handle_mcp_request example_env mcp_server (Inr (JObj [(''id'', JNum 1)])) =
     \<lparr>status_code = 200, content = JObj [(''jsonrpc'', JStr ''2.0''),
                                                (''id'', (JNum 1)),
                                                (''error'',
                                                 JObj [(''code'', JNum (- 32601)),
                                                       (''message'', JStr ''Method not found: '')])]\<rparr>"
  using unparsable_body_internal_error
    [of example_env mcp_server "JSONDecodeError []" "JArr [JNum 1, JNum 2]" "[(''id'', JNum 1)]"]
  by (simp add: no_attribute_def dict_get_def)




text \<open>
  C8, counterexample. On the server that the module builds the registry holds five tools,
  and the field \<open>total_tools\<close> of the health answer is 861.
\<close>

theorem health_total_tools_counterexample:
  "field ''total_tools'' (health_check example_env mcp_server) = Some (JNum 861)
   \<and> length (tools mcp_server) = 5
   \<and> field ''total_tools'' (health_check example_env mcp_server)
       \<noteq> Some (JNum (int (length (tools mcp_server))))"
proof -
  have "length (map fst (tools mcp_server)) = 5"
    unfolding mcp_server_names by simp
  then show ?thesis
    by (simp add: health_check_def field_def total_tool_count_value additional_tools_count_def)
qed

text \<open>
  C8, as the code has it. At every point of the process lifetime the field \<open>mcp_tools\<close> of
  the health answer is the number of tools in the registry at that time, which stays the
  registry built at start-up; the field \<open>total_tools\<close> does not depend on the registry or on
  the time of the query, so it never decreases.
\<close>

theorem health_counts_over_lifetime:
  "field ''mcp_tools'' (health_check env (run mcp_server ers)) =
     Some (JNum (int (length (tools (run mcp_server ers)))))
   \<and> tools (run mcp_server ers) = tools mcp_server
   \<and> field ''total_tools'' (health_check env (run mcp_server ers)) =
       field ''total_tools'' (health_check env' (run mcp_server ers'))"
  by (simp add: run_unchanged health_check_def field_def)

end
